theory Spec2Isabelle
  imports
    Complex_Main
    "HOL-Library.Multiset"
    "HOL-Library.Sublist"
    "HOL-Library.Char_ord"
    "HOL-Library.List_Lexorder"
begin

section \<open>Python values used by scripts/transaction\_generator.py\<close>

text \<open>
  The script raises nothing itself; every failure comes out of a library call.  The
  exceptions those calls can raise are values here, and every fallible function returns
  \<open>py_error + 'a\<close> with the exception on the left.
\<close>

datatype py_error =
    KeyError string
  | IndexError string
  | ValueError string
  | OverflowError string

text \<open>
  A Python float (IEEE double).  The finite values are embedded in the reals; the three
  special values are kept apart because \<open>min\<close>, \<open>max\<close> and \<open>round\<close> treat them
  differently.  A Python \<open>int\<close> that meets a float in a comparison is compared by value,
  so the integer bounds of an amount range are embedded with \<open>of_py_int\<close>.
\<close>

datatype np_float = Finite real | PosInf | NegInf | NaN

definition of_py_int :: "int \<Rightarrow> np_float" where
  "of_py_int k = Finite (of_int k)"

text \<open>\<open>a < b\<close> on floats: every comparison with NaN is false.\<close>

fun float_lt :: "np_float \<Rightarrow> np_float \<Rightarrow> bool" where
  "float_lt (Finite a) (Finite b) = (a < b)"
| "float_lt (Finite a) PosInf = True"
| "float_lt (Finite a) NegInf = False"
| "float_lt (Finite a) NaN = False"
| "float_lt PosInf b = False"
| "float_lt NegInf (Finite b) = True"
| "float_lt NegInf PosInf = True"
| "float_lt NegInf NegInf = False"
| "float_lt NegInf NaN = False"
| "float_lt NaN b = False"

text \<open>
  The builtins \<open>min(a, b)\<close> and \<open>max(a, b)\<close> keep the first argument and replace it by
  the second only when the second is strictly smaller (resp. strictly greater).
\<close>

definition py_min :: "np_float \<Rightarrow> np_float \<Rightarrow> np_float" where
  "py_min a b = (if float_lt b a then b else a)"

definition py_max :: "np_float \<Rightarrow> np_float \<Rightarrow> np_float" where
  "py_max a b = (if float_lt a b then b else a)"

text \<open>
  \<open>round(x, 0)\<close> on a float returns a float: the nearest integer, a tie going to the even
  neighbour; infinities and NaN are returned unchanged.
\<close>

definition round_half_even :: "real \<Rightarrow> int" where
  "round_half_even x =
     (let f = \<lfloor>x\<rfloor>; d = x - of_int f
      in if d < 1 / 2 then f
         else if 1 / 2 < d then f + 1
         else if even f then f else f + 1)"

fun py_round0 :: "np_float \<Rightarrow> np_float" where
  "py_round0 (Finite x) = Finite (of_int (round_half_even x))"
| "py_round0 PosInf = PosInf"
| "py_round0 NegInf = NegInf"
| "py_round0 NaN = NaN"

text \<open>\<open>int(x)\<close> on a finite float truncates towards zero.\<close>

definition py_int :: "real \<Rightarrow> int" where
  "py_int x = (if 0 \<le> x then \<lfloor>x\<rfloor> else \<lceil>x\<rceil>)"

subsection \<open>Decimal rendering of integers in f-strings\<close>

definition digit_char :: "nat \<Rightarrow> char" where
  "digit_char d = ''0123456789'' ! d"

fun str_nat :: "nat \<Rightarrow> string" where
  "str_nat n =
     (if n < 10 then [digit_char n]
      else str_nat (n div 10) @ [digit_char (n mod 10)])"

declare str_nat.simps [simp del]

definition str_int :: "int \<Rightarrow> string" where
  "str_int i = (if i < 0 then CHR ''-'' # str_nat (nat (- i)) else str_nat (nat i))"

section \<open>Configuration\<close>

text \<open>
  The four module-level tables.  A dict literal is an association list in insertion
  order (its keys are distinct in the source).  The second city, Thies with a grave accent on
  the e, is written as its UTF-8 bytes.
\<close>

definition VILLES :: "string list" where
  "VILLES =
     [''Dakar'', ''Thi'' @ [char_of (195::nat), char_of (168::nat)] @ ''s'',
      ''Saint-Louis'', ''Kaolack'', ''Ziguinchor'']"

definition TRANSACTION_TYPES :: "(string \<times> real) list" where
  "TRANSACTION_TYPES =
     [(''transfer'', 45 / 100), (''payment'', 30 / 100),
      (''withdrawal'', 20 / 100), (''deposit'', 5 / 100)]"

definition OPERATEURS :: "string list" where
  "OPERATEURS = [''Orange Money'', ''Wave'', ''Free Money'', ''Wizall'']"

definition MONTANT_RANGES :: "(string \<times> int \<times> int) list" where
  "MONTANT_RANGES =
     [(''transfer'', (1000, 100000)), (''payment'', (500, 50000)),
      (''withdrawal'', (5000, 200000)), (''deposit'', (10000, 500000))]"

text \<open>
  The functions read these globals.  They are passed explicitly, as one record, so that
  statements about other configurations can be made; \<open>source_config\<close> is the
  configuration of the script.
\<close>

record config =
  villes :: "string list"
  transaction_types :: "(string \<times> real) list"
  operateurs :: "string list"
  montant_ranges :: "(string \<times> int \<times> int) list"

definition source_config :: config where
  "source_config =
     \<lparr> villes = VILLES, transaction_types = TRANSACTION_TYPES,
       operateurs = OPERATEURS, montant_ranges = MONTANT_RANGES \<rparr>"

section \<open>The amount generator\<close>

text \<open>
  \<open>generer_montant\<close>, lines 51-59.  The third argument is the value returned by
  \<open>np.random.lognormal(mean=np.log(min_val + (max_val - min_val) / 3), sigma=0.8)\<close>:
  the call raises nothing (a non-positive argument of \<open>np.log\<close> gives NaN or
  \<open>-inf\<close> with a warning, and the draw is then NaN or 0), so its result is any float.
  A type that is not a key of \<open>MONTANT_RANGES\<close> raises \<open>KeyError\<close>.
\<close>

definition generer_montant :: "config \<Rightarrow> string \<Rightarrow> np_float \<Rightarrow> py_error + np_float" where
  "generer_montant cfg transaction_type montant =
     (case map_of (montant_ranges cfg) transaction_type of
        None \<Rightarrow> Inl (KeyError transaction_type)
      | Some (min_val, max_val) \<Rightarrow>
          Inr (py_max (of_py_int min_val) (py_min (of_py_int max_val) (py_round0 montant))))"

section \<open>The random sources\<close>

text \<open>
  Both generators are seeded once (lines 21-22), so the values they hand out in a run are
  fixed by the seeds.  One record holds the values handed out during one iteration of the
  batch loop, in the order the iteration asks for them.  The integer draws are raw
  naturals: \<open>_randbelow(n)\<close> is modelled as the draw reduced modulo \<open>n\<close>, which reaches
  every value below \<open>n\<close> and no other, so a statement for all draws covers every outcome
  of the call.
\<close>

record draws =
  u_type :: nat \<comment> \<open>the uniform sample taken inside \<open>np.random.choice\<close>, as a 53-bit numerator\<close>
  ln_montant :: np_float \<comment> \<open>the value returned by \<open>np.random.lognormal\<close>\<close>
  r_city :: nat
  r_operator :: nat
  r_prefix :: nat
  r_numero :: nat
  r_suffix :: nat
  r_offset :: nat

definition randbelow :: "nat \<Rightarrow> nat \<Rightarrow> nat" where
  "randbelow n r = r mod n"

text \<open>\<open>random.choice(seq)\<close>.\<close>

definition random_choice :: "'a list \<Rightarrow> nat \<Rightarrow> py_error + 'a" where
  "random_choice seq r =
     (if length seq = 0 then Inl (IndexError ''Cannot choose from an empty sequence'')
      else Inr (seq ! randbelow (length seq) r))"

text \<open>
  \<open>random.randint(a, b)\<close> is \<open>a + _randbelow(b + 1 - a)\<close>.  The script calls it with
  literal bounds \<open>a \<le> b\<close> only, so its empty-range error cannot occur.
\<close>

definition random_randint :: "int \<Rightarrow> int \<Rightarrow> nat \<Rightarrow> int" where
  "random_randint a b r = a + int (randbelow (nat (b + 1 - a)) r)"

text \<open>
  \<open>np.random.choice(a, p=p)\<close> for one sample with replacement: the arguments are
  checked, then one uniform sample in \<open>[0, 1)\<close> is located in the normalised cumulative
  sums of \<open>p\<close> (\<open>searchsorted\<close> with \<open>side='right'\<close>).  The tolerance of the sum check
  is the square root of the double-precision epsilon, \<open>2\<^sup>-\<^sup>2\<^sup>6\<close>.
\<close>

definition random_sample :: "nat \<Rightarrow> real" where
  "random_sample r = real (r mod 2 ^ 53) / 2 ^ 53"

fun cumsum :: "real \<Rightarrow> real list \<Rightarrow> real list" where
  "cumsum acc [] = []"
| "cumsum acc (x # xs) = (acc + x) # cumsum (acc + x) xs"

definition searchsorted_right :: "real list \<Rightarrow> real \<Rightarrow> nat" where
  "searchsorted_right cdf u = length (takeWhile (\<lambda>c. c \<le> u) cdf)"

definition atol :: real where
  "atol = 1 / 2 ^ 26"

definition np_random_choice :: "string list \<Rightarrow> real list \<Rightarrow> nat \<Rightarrow> py_error + string" where
  "np_random_choice a p r =
     (if length a = 0 then Inl (ValueError ''a cannot be empty unless no samples are taken'')
      else if length p \<noteq> length a then Inl (ValueError ''a and p must have same size'')
      else if list_ex (\<lambda>x. x < 0) p then Inl (ValueError ''probabilities are not non-negative'')
      else if atol < \<bar>sum_list p - 1\<bar> then Inl (ValueError ''probabilities do not sum to 1'')
      else
        let cdf = cumsum 0 p;
            cdf = map (\<lambda>c. c / last cdf) cdf;
            idx = searchsorted_right cdf (random_sample r)
        in if idx < length a then Inr (a ! idx)
           else Inl (IndexError ''index out of bounds''))"

section \<open>Dates and times\<close>

text \<open>
  A naive \<open>datetime\<close> is the number of microseconds since 0001-01-01 00:00:00, the
  quantity in which the library does its \<open>timedelta\<close> arithmetic.  A sum is valid when
  its day ordinal lies in \<open>1 .. 3652059\<close> (years 1 to 9999); otherwise the addition
  raises \<open>OverflowError\<close>.
\<close>

type_synonym datetime = int

definition us_per_day :: int where
  "us_per_day = 86400000000"

definition MAXORDINAL :: int where
  "MAXORDINAL = 3652059"

definition timedelta_days :: "int \<Rightarrow> int" where
  "timedelta_days k = k * us_per_day"

definition timedelta_hours :: "int \<Rightarrow> int" where
  "timedelta_hours k = k * 3600000000"

definition toordinal :: "datetime \<Rightarrow> int" where
  "toordinal d = d div us_per_day + 1"

definition datetime_add :: "datetime \<Rightarrow> int \<Rightarrow> py_error + datetime" where
  "datetime_add d delta =
     (let s = d + delta
      in if 0 < toordinal s \<and> toordinal s \<le> MAXORDINAL then Inr s
         else Inl (OverflowError ''date value out of range''))"

definition dt_hour :: "datetime \<Rightarrow> int" where
  "dt_hour d = ((d mod us_per_day) div 1000000) div 3600"

definition dt_minute :: "datetime \<Rightarrow> int" where
  "dt_minute d = (((d mod us_per_day) div 1000000) mod 3600) div 60"

definition dt_second :: "datetime \<Rightarrow> int" where
  "dt_second d = ((d mod us_per_day) div 1000000) mod 60"

text \<open>The library's conversion of a day ordinal to year, month and day.\<close>

definition DAYS_IN_MONTH :: "int list" where
  "DAYS_IN_MONTH = [-1, 31, 28, 31, 30, 31, 30, 31, 31, 30, 31, 30, 31]"

definition DAYS_BEFORE_MONTH :: "int list" where
  "DAYS_BEFORE_MONTH = [-1, 0, 31, 59, 90, 120, 151, 181, 212, 243, 273, 304, 334]"

definition ord2ymd :: "int \<Rightarrow> int \<times> int \<times> int" where
  "ord2ymd ordinal =
     (let n = ordinal - 1;
          n400 = n div 146097; n = n mod 146097;
          year = n400 * 400 + 1;
          n100 = n div 36524; n = n mod 36524;
          n4 = n div 1461; n = n mod 1461;
          n1 = n div 365; n = n mod 365;
          year = year + n100 * 100 + n4 * 4 + n1
      in if n1 = 4 \<or> n100 = 4 then (year - 1, 12, 31)
         else
           let leapyear = (n1 = 3 \<and> (n4 \<noteq> 24 \<or> n100 = 3));
               month = (n + 50) div 32;
               preceding = DAYS_BEFORE_MONTH ! nat month + (if 2 < month \<and> leapyear then 1 else 0)
           in if n < preceding then
                let month = month - 1;
                    preceding = preceding
                      - (DAYS_IN_MONTH ! nat month + (if month = 2 \<and> leapyear then 1 else 0))
                in (year, month, n - preceding + 1)
              else (year, month, n - preceding + 1))"

text \<open>
  \<open>strftime('%Y-%m-%d %H:%M:%S')\<close>: every field zero-filled to its width (the year to
  four digits, which is what every platform prints from year 1000 on).
\<close>

definition zfill :: "nat \<Rightarrow> string \<Rightarrow> string" where
  "zfill w s = replicate (w - length s) CHR ''0'' @ s"

definition strftime_date :: "datetime \<Rightarrow> string" where
  "strftime_date d =
     (case ord2ymd (toordinal d) of
        (y, m, dd) \<Rightarrow> zfill 4 (str_int y) @ ''-'' @ zfill 2 (str_int m) @ ''-'' @ zfill 2 (str_int dd))"

definition strftime :: "datetime \<Rightarrow> string" where
  "strftime d =
     strftime_date d @ '' '' @ zfill 2 (str_int (dt_hour d))
       @ '':'' @ zfill 2 (str_int (dt_minute d)) @ '':'' @ zfill 2 (str_int (dt_second d))"

text \<open>
  The two clock readings taken while one record is built: \<open>datetime.now()\<close> (line 89)
  and \<open>time.time()\<close> (line 92, seconds since the epoch).
\<close>

record clock =
  now_dt :: datetime
  time_time :: real

section \<open>The record generator\<close>

record transaction =
  transaction_id :: string
  timestamp :: string
  user_id :: string
  amount :: np_float
  city :: string
  transaction_type :: string
  operator :: string
  status :: string

text \<open>\<open>generer_user_id\<close>, lines 61-66.\<close>

definition prefixes :: "string list" where
  "prefixes = [''77'', ''78'', ''76'', ''70'', ''75'']"

definition generer_user_id :: "nat \<Rightarrow> nat \<Rightarrow> py_error + string" where
  "generer_user_id r1 r2 =
     (case random_choice prefixes r1 of
        Inl e \<Rightarrow> Inl e
      | Inr prefix' \<Rightarrow>
          let numero = prefix' @ str_int (random_randint 1000000 9999999 r2)
          in Inr (''user_'' @ numero))"

text \<open>\<open>generer_transaction\<close>, lines 68-100.  The calls are made in the source's order.\<close>

definition generer_transaction :: "config \<Rightarrow> draws \<Rightarrow> clock \<Rightarrow> py_error + transaction" where
  "generer_transaction cfg d c =
     (case np_random_choice (map fst (transaction_types cfg)) (map snd (transaction_types cfg))
             (u_type d) of
        Inl e \<Rightarrow> Inl e
      | Inr trans_type \<Rightarrow>
     (case generer_montant cfg trans_type (ln_montant d) of
        Inl e \<Rightarrow> Inl e
      | Inr amount' \<Rightarrow>
     (case random_choice (villes cfg) (r_city d) of
        Inl e \<Rightarrow> Inl e
      | Inr city' \<Rightarrow>
     (case random_choice (operateurs cfg) (r_operator d) of
        Inl e \<Rightarrow> Inl e
      | Inr operator' \<Rightarrow>
     (case generer_user_id (r_prefix d) (r_numero d) of
        Inl e \<Rightarrow> Inl e
      | Inr user_id' \<Rightarrow>
          Inr \<lparr> transaction_id =
                  ''TXN'' @ str_int (py_int (time_time c * 1000)) @ ''_''
                    @ str_int (random_randint 1000 9999 (r_suffix d)),
                timestamp = strftime (now_dt c),
                user_id = user_id',
                amount = amount',
                city = city',
                transaction_type = trans_type,
                operator = operator',
                status = ''completed'' \<rparr>)))))"

section \<open>The batch assembler\<close>

text \<open>
  The body of the loop, lines 120-126: one record from the generator, its timestamp
  replaced by the anchor plus a whole number of hours.
\<close>

definition iteration :: "config \<Rightarrow> datetime \<Rightarrow> draws \<Rightarrow> clock \<Rightarrow> py_error + transaction" where
  "iteration cfg base_date d c =
     (case generer_transaction cfg d c of
        Inl e \<Rightarrow> Inl e
      | Inr trans' \<Rightarrow>
          let offset_hours = random_randint 0 (7 * 24) (r_offset d)
          in (case datetime_add base_date (timedelta_hours offset_hours) of
                Inl e \<Rightarrow> Inl e
              | Inr timestamp' \<Rightarrow> Inr (trans'\<lparr>timestamp := strftime timestamp'\<rparr>)))"

text \<open>
  The loop of lines 116-128.  \<open>rng i\<close> and \<open>clk i\<close> are the random values and the clock
  readings of iteration \<open>i\<close>; the list is the \<open>transactions\<close> accumulator.  Progress
  printing is left out.
\<close>

fun generer_boucle ::
  "config \<Rightarrow> datetime \<Rightarrow> (nat \<Rightarrow> draws) \<Rightarrow> (nat \<Rightarrow> clock) \<Rightarrow> nat \<Rightarrow> nat
     \<Rightarrow> transaction list \<Rightarrow> py_error + transaction list" where
  "generer_boucle cfg base_date rng clk i 0 transactions = Inr transactions"
| "generer_boucle cfg base_date rng clk i (Suc k) transactions =
     (case iteration cfg base_date (rng i) (clk i) of
        Inl e \<Rightarrow> Inl e
      | Inr trans' \<Rightarrow>
          generer_boucle cfg base_date rng clk (Suc i) k (transactions @ [trans']))"

text \<open>
  Lines 111-128: the anchor \<open>base_date\<close> and the list before it is sorted.  \<open>now0\<close> is
  the reading of \<open>datetime.now()\<close> on line 114; \<open>range(n)\<close> is empty for \<open>n \<le> 0\<close>.
\<close>

definition generer_liste ::
  "config \<Rightarrow> datetime \<Rightarrow> (nat \<Rightarrow> draws) \<Rightarrow> (nat \<Rightarrow> clock) \<Rightarrow> int
     \<Rightarrow> py_error + transaction list" where
  "generer_liste cfg now0 rng clk n_transactions =
     (case datetime_add now0 (- timedelta_days 7) of
        Inl e \<Rightarrow> Inl e
      | Inr base_date \<Rightarrow> generer_boucle cfg base_date rng clk 0 (nat n_transactions) [])"

text \<open>
  \<open>generer_batch_transactions\<close>, lines 102-138.  A data frame is the list of its rows, so
  \<open>reset_index(drop=True)\<close> changes nothing.  \<open>df.sort_values('timestamp')\<close> is a call
  into pandas with the default \<open>kind='quicksort'\<close>; the sorting routine is the
  parameter \<open>sort_values\<close>, applied to the column it sorts by.
\<close>

definition generer_batch_transactions ::
  "((transaction \<Rightarrow> string) \<Rightarrow> transaction list \<Rightarrow> transaction list)
     \<Rightarrow> config \<Rightarrow> datetime \<Rightarrow> (nat \<Rightarrow> draws) \<Rightarrow> (nat \<Rightarrow> clock) \<Rightarrow> int
     \<Rightarrow> py_error + transaction list" where
  "generer_batch_transactions sort_values cfg now0 rng clk n_transactions =
     (case generer_liste cfg now0 rng clk n_transactions of
        Inl e \<Rightarrow> Inl e
      | Inr transactions \<Rightarrow> Inr (sort_values timestamp transactions))"

text \<open>
  What pandas documents for \<open>sort_values\<close> whatever the \<open>kind\<close>: the rows come back
  permuted, in ascending order of the column.  Only \<open>kind='mergesort'\<close> and
  \<open>kind='stable'\<close> are documented as stable.
\<close>

definition sorts_by_key ::
  "((transaction \<Rightarrow> string) \<Rightarrow> transaction list \<Rightarrow> transaction list) \<Rightarrow> bool" where
  "sorts_by_key sk = (\<forall>f xs. sorted (map f (sk f xs)) \<and> mset (sk f xs) = mset xs)"

section \<open>A sample run\<close>

text \<open>
  The random values and clock readings of two iterations, the reading of the clock when
  the batch starts, and the two rows the loop builds from them.  The second record is
  built a tenth of a millisecond after the first and draws the same suffix and the same
  offset.
\<close>

definition tirage0 :: draws where
  "tirage0 =
     \<lparr>u_type = 5, ln_montant = Finite (50001 / 2), r_city = 7, r_operator = 2, r_prefix = 3,
      r_numero = 123, r_suffix = 42, r_offset = 50\<rparr>"

definition tirage1 :: draws where
  "tirage1 =
     \<lparr>u_type = 4503599627370501, ln_montant = Finite (50001 / 2), r_city = 8, r_operator = 3,
      r_prefix = 4, r_numero = 124, r_suffix = 42, r_offset = 50\<rparr>"

definition horloge0 :: clock where
  "horloge0 = \<lparr>now_dt = 63929298896789012, time_time = 1793750096789012 / 1000000\<rparr>"

definition horloge1 :: clock where
  "horloge1 = \<lparr>now_dt = 63929298896789112, time_time = 1793750096789112 / 1000000\<rparr>"

definition exemple_rng :: "nat \<Rightarrow> draws" where
  "exemple_rng i = (if i = 0 then tirage0 else tirage1)"

definition exemple_clk :: "nat \<Rightarrow> clock" where
  "exemple_clk i = (if i = 0 then horloge0 else horloge1)"

definition exemple_now :: datetime where
  "exemple_now = 63929298896789000"

definition exemple_ligne0 :: transaction where
  "exemple_ligne0 =
     \<lparr>transaction_id = ''TXN1793750096789_1042'', timestamp = ''2026-10-29 12:34:56'',
      user_id = ''user_701000123'', amount = Finite 25000, city = ''Saint-Louis'',
      transaction_type = ''transfer'', operator = ''Free Money'', status = ''completed''\<rparr>"

definition exemple_ligne1 :: transaction where
  "exemple_ligne1 =
     \<lparr>transaction_id = ''TXN1793750096789_1042'', timestamp = ''2026-10-29 12:34:56'',
      user_id = ''user_751000124'', amount = Finite 25000, city = ''Kaolack'',
      transaction_type = ''payment'', operator = ''Wizall'', status = ''completed''\<rparr>"

text \<open>
  A second run of the script with the same random values, started one day and seven
  seconds later, and its first row.
\<close>

definition autre_now :: datetime where
  "autre_now = 63929385303789000"

definition autre_clk :: "nat \<Rightarrow> clock" where
  "autre_clk i = \<lparr>now_dt = 63929385303789012, time_time = 1793836503789012 / 1000000\<rparr>"

definition autre_ligne0 :: transaction where
  "autre_ligne0 =
     \<lparr>transaction_id = ''TXN1793836503789_1042'', timestamp = ''2026-10-30 12:35:03'',
      user_id = ''user_701000123'', amount = Finite 25000, city = ''Saint-Louis'',
      transaction_type = ''transfer'', operator = ''Free Money'', status = ''completed''\<rparr>"

text \<open>
  Two other configurations: an amount range whose lower bound exceeds its upper bound, and
  a weight table that sums to 0.95.
\<close>

definition config_min_sup_max :: config where
  "config_min_sup_max =
     source_config\<lparr>montant_ranges :=
       [(''transfer'', (100000, 1000)), (''payment'', (500, 50000)),
        (''withdrawal'', (5000, 200000)), (''deposit'', (10000, 500000))]\<rparr>"

definition config_poids_faux :: config where
  "config_poids_faux =
     source_config\<lparr>transaction_types :=
       [(''transfer'', 45 / 100), (''payment'', 30 / 100), (''withdrawal'', 20 / 100)]\<rparr>"


section \<open>Notions used in the statements\<close>

text \<open>
  The decimal digits, and the number a string of digits denotes; they serve to state
  the shape of the identifiers and to show that the rendering of an integer determines it.
\<close>

definition digit_val :: "char \<Rightarrow> nat" where
  "digit_val c = length (takeWhile (\<lambda>x. x \<noteq> c) ''0123456789'')"

definition decimal_value :: "string \<Rightarrow> nat" where
  "decimal_value s = foldl (\<lambda>a c. 10 * a + digit_val c) 0 s"

definition decimal_digits :: "char set" where
  "decimal_digits = set ''0123456789''"

text \<open>
  The reading of \<open>datetime.now()\<close> on line 114 is a valid \<open>datetime\<close>, so its ordinal
  is at most \<open>MAXORDINAL\<close>; the anchor seven days earlier exists when the reading is
  not within the first week of year 1.
\<close>

definition clock_in_range :: "datetime \<Rightarrow> bool" where
  "clock_in_range now0 \<longleftrightarrow> timedelta_days 7 \<le> now0 \<and> toordinal now0 \<le> MAXORDINAL"

text \<open>The fields of a record that are computed from random values alone.\<close>

definition seeded_fields :: "transaction \<Rightarrow> string \<times> np_float \<times> string \<times> string \<times> string \<times> string" where
  "seeded_fields t = (user_id t, amount t, city t, transaction_type t, operator t, status t)"

section \<open>Properties\<close>

subsection \<open>Clamping\<close>

lemma py_clamp_in_range:
  assumes "lo \<le> hi"
  shows "\<exists>k. py_max (of_py_int lo) (py_min (of_py_int hi) (py_round0 x)) = Finite (of_int k)
             \<and> lo \<le> k \<and> k \<le> hi"
proof (cases x)
  case (Finite r)
  let ?k = "round_half_even r"
  show ?thesis
  proof (cases "?k < hi")
    case True
    then have m: "py_min (of_py_int hi) (py_round0 x) = Finite (of_int ?k)"
      by (simp add: py_min_def of_py_int_def Finite)
    show ?thesis
    proof (cases "lo < ?k")
      case True
      with m \<open>?k < hi\<close> show ?thesis
        by (intro exI [of _ ?k]) (simp add: py_max_def of_py_int_def)
    next
      case False
      with m assms show ?thesis
        by (intro exI [of _ lo]) (simp add: py_max_def of_py_int_def)
    qed
  next
    case False
    then have m: "py_min (of_py_int hi) (py_round0 x) = Finite (of_int hi)"
      by (simp add: py_min_def of_py_int_def Finite)
    with assms show ?thesis
      by (intro exI [of _ hi]) (simp add: py_max_def of_py_int_def)
  qed
next
  case PosInf
  with assms show ?thesis
    by (intro exI [of _ hi]) (simp add: py_max_def py_min_def of_py_int_def)
next
  case NegInf
  with assms show ?thesis
    by (intro exI [of _ lo]) (simp add: py_max_def py_min_def of_py_int_def)
next
  case NaN
  with assms show ?thesis
    by (intro exI [of _ hi]) (simp add: py_max_def py_min_def of_py_int_def)
qed

subsection \<open>Decimal rendering\<close>

lemma not_decimal_digit: "CHR ''_'' \<notin> decimal_digits" "CHR ''-'' \<notin> decimal_digits"
  by (simp_all add: decimal_digits_def)

lemma below_ten: "(d::nat) < 10 \<Longrightarrow> d \<in> {0, 1, 2, 3, 4, 5, 6, 7, 8, 9}"
  by auto

lemma digit_char_mem: "d < 10 \<Longrightarrow> digit_char d \<in> decimal_digits"
  unfolding digit_char_def decimal_digits_def by (rule nth_mem) simp

lemma digit_val_digit_char: "d < 10 \<Longrightarrow> digit_val (digit_char d) = d"
  using below_ten [of d] by (auto simp: digit_val_def digit_char_def)

lemma str_nat_digits: "set (str_nat n) \<subseteq> decimal_digits"
proof (induction n rule: str_nat.induct)
  case (1 n)
  show ?case
  proof (cases "n < 10")
    case True
    then show ?thesis using digit_char_mem [of n] by (subst str_nat.simps) simp
  next
    case False
    have "n mod 10 < 10" by simp
    from digit_char_mem [OF this] 1 [OF False] False show ?thesis
      by (subst str_nat.simps) simp
  qed
qed

lemma decimal_value_str_nat: "decimal_value (str_nat n) = n"
proof (induction n rule: str_nat.induct)
  case (1 n)
  show ?case
  proof (cases "n < 10")
    case True
    then show ?thesis
      by (subst str_nat.simps) (simp add: decimal_value_def digit_val_digit_char)
  next
    case False
    have "decimal_value (str_nat (n div 10) @ [digit_char (n mod 10)])
        = 10 * decimal_value (str_nat (n div 10)) + digit_val (digit_char (n mod 10))"
      by (simp add: decimal_value_def)
    also have "\<dots> = 10 * (n div 10) + n mod 10"
      using 1 [OF False] by (simp add: digit_val_digit_char)
    also have "\<dots> = n" by simp
    finally show ?thesis using False by (subst str_nat.simps) simp
  qed
qed

lemma str_nat_inj: "str_nat a = str_nat b \<Longrightarrow> a = b"
  by (metis decimal_value_str_nat)

lemma length_str_nat:
  "n < 10 ^ Suc k \<Longrightarrow> k = 0 \<or> 10 ^ k \<le> n \<Longrightarrow> length (str_nat n) = Suc k"
proof (induction k arbitrary: n)
  case 0
  then show ?case by (subst str_nat.simps) simp
next
  case (Suc k)
  define m :: nat where "m = 10 ^ k"
  have m: "1 \<le> m" by (simp add: m_def)
  from Suc.prems have ge: "10 * m \<le> n" and lt: "n < 10 * (10 * m)" by (simp_all add: m_def)
  from ge m have n10: "\<not> n < 10" by linarith
  from lt have a: "n div 10 < 10 * m" by linarith
  from ge have b: "m \<le> n div 10" by linarith
  from a b have "length (str_nat (n div 10)) = Suc k"
    using Suc.IH [of "n div 10"] by (simp add: m_def)
  with n10 show ?case by (subst str_nat.simps) simp
qed

lemma underscore_notin_str_int: "CHR ''_'' \<notin> set (str_int i)"
proof -
  have "CHR ''_'' \<notin> set (str_nat n)" for n
    using str_nat_digits [of n] not_decimal_digit(1) by blast
  then show ?thesis by (simp add: str_int_def)
qed

lemma str_int_inj: "str_int a = str_int b \<Longrightarrow> a = b"
proof -
  assume eq: "str_int a = str_int b"
  have nd: "CHR ''-'' \<notin> set (str_nat n)" for n
    using str_nat_digits [of n] not_decimal_digit(2) by blast
  show ?thesis
  proof (cases "a < 0")
    case True
    show ?thesis
    proof (cases "b < 0")
      case True
      with \<open>a < 0\<close> eq have "str_nat (nat (- a)) = str_nat (nat (- b))" by (simp add: str_int_def)
      then have "nat (- a) = nat (- b)" by (rule str_nat_inj)
      with True \<open>a < 0\<close> show ?thesis by simp
    next
      case False
      with \<open>a < 0\<close> eq have "str_nat (nat b) = CHR ''-'' # str_nat (nat (- a))"
        by (simp add: str_int_def)
      then have "CHR ''-'' \<in> set (str_nat (nat b))" by simp
      with nd show ?thesis by blast
    qed
  next
    case False
    show ?thesis
    proof (cases "b < 0")
      case True
      with False eq have "str_nat (nat a) = CHR ''-'' # str_nat (nat (- b))"
        by (simp add: str_int_def)
      then have "CHR ''-'' \<in> set (str_nat (nat a))" by simp
      with nd show ?thesis by blast
    next
      case b: False
      with False eq have "str_nat (nat a) = str_nat (nat b)" by (simp add: str_int_def)
      then have "nat a = nat b" by (rule str_nat_inj)
      with False b show ?thesis by simp
    qed
  qed
qed

lemma str_int_length:
  assumes "10 ^ k \<le> i" "i < 10 ^ Suc k"
  shows "length (str_int i) = Suc k" and "set (str_int i) \<subseteq> decimal_digits"
proof -
  have "(0::int) < 10 ^ k" by simp
  with assms have nn: "\<not> i < 0" by linarith
  have p: "int (10 ^ j) = 10 ^ j" for j by simp
  define L :: nat where "L = 10 ^ k"
  from assms(1) have "int L \<le> i" unfolding L_def by (simp only: p)
  then have "L \<le> nat i" by linarith
  then have lo: "(10::nat) ^ k \<le> nat i" by (simp only: L_def)
  define M :: nat where "M = 10 ^ Suc k"
  from assms(2) have "i < int M" unfolding M_def by (simp only: p)
  with nn have "nat i < M" by linarith
  then have hi: "nat i < 10 ^ Suc k" by (simp only: M_def)
  from length_str_nat [OF hi] lo have "length (str_nat (nat i)) = Suc k" by blast
  with nn show "length (str_int i) = Suc k" by (simp add: str_int_def)
  from nn show "set (str_int i) \<subseteq> decimal_digits"
    using str_nat_digits [of "nat i"] by (simp add: str_int_def)
qed

subsection \<open>The library calls on the script's own tables\<close>

lemma random_sample_bounds: "0 \<le> random_sample r \<and> random_sample r < 1"
proof -
  have "r mod 2 ^ 53 < (2::nat) ^ 53" by simp
  then have "real (r mod 2 ^ 53) < 2 ^ 53"
    by (metis of_nat_less_iff of_nat_numeral of_nat_power)
  then show ?thesis by (simp add: random_sample_def)
qed

lemma np_random_choice_mem: "np_random_choice a p r = Inr t \<Longrightarrow> t \<in> set a"
  by (auto simp: np_random_choice_def Let_def split: if_splits)

lemma np_random_choice_source:
  "\<exists>t. np_random_choice (map fst TRANSACTION_TYPES) (map snd TRANSACTION_TYPES) r = Inr t"
proof -
  have "random_sample r < 1" using random_sample_bounds by simp
  then show ?thesis
    by (simp add: np_random_choice_def TRANSACTION_TYPES_def atol_def Let_def
        searchsorted_right_def)
qed

lemma random_choice_nonempty: "seq \<noteq> [] \<Longrightarrow> \<exists>x \<in> set seq. random_choice seq r = Inr x"
  by (simp add: random_choice_def randbelow_def)

lemma random_choice_mem: "random_choice seq r = Inr x \<Longrightarrow> x \<in> set seq"
  by (auto simp: random_choice_def randbelow_def split: if_splits)

lemma generer_montant_range:
  assumes "map_of (montant_ranges cfg) ty = Some (lo, hi)" and "lo \<le> hi"
  shows "\<exists>k. generer_montant cfg ty x = Inr (Finite (of_int k)) \<and> lo \<le> k \<and> k \<le> hi"
  using py_clamp_in_range [OF assms(2), of x] assms(1) by (simp add: generer_montant_def)

lemma source_ranges:
  assumes "ty \<in> set (map fst (transaction_types source_config))"
  shows "\<exists>lo hi. map_of (montant_ranges source_config) ty = Some (lo, hi)
           \<and> map_of MONTANT_RANGES ty = Some (lo, hi) \<and> lo \<le> hi"
  using assms by (auto simp: source_config_def TRANSACTION_TYPES_def MONTANT_RANGES_def)

lemma source_types: "transaction_types source_config = TRANSACTION_TYPES"
  by (simp add: source_config_def)

lemma generer_user_id_total: "\<exists>u. generer_user_id r1 r2 = Inr u"
  by (simp add: generer_user_id_def random_choice_def prefixes_def Let_def)

subsection \<open>What a generated record is made of\<close>

lemma generer_transaction_Inr:
  assumes "generer_transaction cfg d c = Inr t"
  shows "np_random_choice (map fst (transaction_types cfg)) (map snd (transaction_types cfg))
           (u_type d) = Inr (transaction_type t)"
    and "generer_montant cfg (transaction_type t) (ln_montant d) = Inr (amount t)"
    and "random_choice (villes cfg) (r_city d) = Inr (city t)"
    and "random_choice (operateurs cfg) (r_operator d) = Inr (operator t)"
    and "generer_user_id (r_prefix d) (r_numero d) = Inr (user_id t)"
    and "transaction_id t =
           ''TXN'' @ str_int (py_int (time_time c * 1000)) @ ''_''
             @ str_int (random_randint 1000 9999 (r_suffix d))"
    and "timestamp t = strftime (now_dt c)"
    and "status t = ''completed''"
  using assms by (auto simp: generer_transaction_def split: sum.splits)

lemma generer_transaction_source_total: "\<exists>t. generer_transaction source_config d c = Inr t"
proof -
  obtain ty where ty: "np_random_choice (map fst TRANSACTION_TYPES) (map snd TRANSACTION_TYPES)
      (u_type d) = Inr ty"
    using np_random_choice_source by blast
  then have "ty \<in> set (map fst TRANSACTION_TYPES)" by (rule np_random_choice_mem)
  then have "ty \<in> set (map fst (transaction_types source_config))"
    by (simp only: source_types)
  from source_ranges [OF this]
  obtain lo hi where r: "map_of (montant_ranges source_config) ty = Some (lo, hi)" "lo \<le> hi"
    by blast
  obtain a where a: "generer_montant source_config ty (ln_montant d) = Inr a"
    using generer_montant_range [OF r] by blast
  obtain v where v: "random_choice (villes source_config) (r_city d) = Inr v"
    using random_choice_nonempty [of "villes source_config"]
    by (auto simp: source_config_def VILLES_def)
  obtain ope where ope: "random_choice (operateurs source_config) (r_operator d) = Inr ope"
    using random_choice_nonempty [of "operateurs source_config"]
    by (auto simp: source_config_def OPERATEURS_def)
  obtain u where u: "generer_user_id (r_prefix d) (r_numero d) = Inr u"
    using generer_user_id_total by blast
  from ty a v ope u source_types show ?thesis by (simp add: generer_transaction_def)
qed

subsection \<open>Identifiers\<close>

lemma randint_bounds: "a \<le> b \<Longrightarrow> a \<le> random_randint a b r \<and> random_randint a b r \<le> b"
proof -
  assume "a \<le> b"
  then have pos: "0 < nat (b + 1 - a)" by simp
  have "r mod nat (b + 1 - a) < nat (b + 1 - a)" using pos by (rule mod_less_divisor)
  then have "int (r mod nat (b + 1 - a)) < b + 1 - a" by linarith
  then show ?thesis by (simp add: random_randint_def randbelow_def)
qed

lemma randint_onto: "a \<le> k \<Longrightarrow> k \<le> b \<Longrightarrow> random_randint a b (nat (k - a)) = k"
  by (simp add: random_randint_def randbelow_def)

lemma str_int_chars: "set (str_int i) \<subseteq> insert CHR ''-'' decimal_digits"
  using str_nat_digits [of "nat i"] str_nat_digits [of "nat (- i)"]
  by (auto simp: str_int_def)

lemma prefixes_shape: "p \<in> set prefixes \<Longrightarrow> length p = 2 \<and> set p \<subseteq> decimal_digits"
  by (auto simp: prefixes_def decimal_digits_def)

lemma generer_user_id_shape:
  "\<exists>p. p \<in> set prefixes
     \<and> generer_user_id r1 r2 = Inr (''user_'' @ p @ str_int (random_randint 1000000 9999999 r2))"
proof -
  have "prefixes \<noteq> []" by (simp add: prefixes_def)
  from random_choice_nonempty [OF this, of r1]
  obtain p where "p \<in> set prefixes" "random_choice prefixes r1 = Inr p" by blast
  then show ?thesis by (auto simp: generer_user_id_def Let_def)
qed

lemma count_underscore:
  assumes "CHR ''_'' \<notin> set a" "CHR ''_'' \<notin> set b"
  shows "count_list (''TXN'' @ a @ ''_'' @ b) CHR ''_'' = 1"
  using assms by (simp add: count_list_0_iff)

subsection \<open>The loop and the batch\<close>

lemma datetime_add_Inr: "datetime_add d delta = Inr s \<Longrightarrow> s = d + delta"
  by (auto simp: datetime_add_def Let_def split: if_splits)

lemma toordinal_range:
  assumes "0 \<le> s" "s \<le> now0" "toordinal now0 \<le> MAXORDINAL"
  shows "0 < toordinal s \<and> toordinal s \<le> MAXORDINAL"
proof -
  from assms(1) have "0 \<le> s div us_per_day"
    by (simp add: us_per_day_def pos_imp_zdiv_nonneg_iff)
  moreover from assms(2) have "s div us_per_day \<le> now0 div us_per_day"
    by (rule zdiv_mono1) (simp add: us_per_day_def)
  ultimately show ?thesis using assms(3) by (simp add: toordinal_def)
qed

lemma base_date_ok:
  assumes "clock_in_range now0"
  shows "datetime_add now0 (- timedelta_days 7) = Inr (now0 - timedelta_days 7)"
proof -
  from assms have "0 \<le> now0 - timedelta_days 7" "now0 - timedelta_days 7 \<le> now0"
    and "toordinal now0 \<le> MAXORDINAL"
    by (simp_all add: clock_in_range_def timedelta_days_def us_per_day_def)
  from toordinal_range [OF this] show ?thesis by (simp add: datetime_add_def Let_def)
qed

lemma offset_ok:
  assumes "clock_in_range now0" "0 \<le> h" "h \<le> 7 * 24"
  shows "datetime_add (now0 - timedelta_days 7) (timedelta_hours h)
           = Inr (now0 - timedelta_days 7 + timedelta_hours h)"
proof -
  from assms have "0 \<le> now0 - timedelta_days 7 + timedelta_hours h"
    and "now0 - timedelta_days 7 + timedelta_hours h \<le> now0"
    and "toordinal now0 \<le> MAXORDINAL"
    by (simp_all add: clock_in_range_def timedelta_days_def timedelta_hours_def us_per_day_def)
  from toordinal_range [OF this] show ?thesis by (simp add: datetime_add_def Let_def)
qed

lemma iteration_Inr:
  assumes "iteration cfg base d c = Inr t"
  shows "\<exists>tr. generer_transaction cfg d c = Inr tr
          \<and> t = tr\<lparr>timestamp :=
                strftime (base + timedelta_hours (random_randint 0 (7 * 24) (r_offset d)))\<rparr>"
  using assms
  by (auto simp: iteration_def Let_def split: sum.splits dest!: datetime_add_Inr)

lemma iteration_source_total:
  assumes "clock_in_range now0"
  shows "\<exists>t. iteration source_config (now0 - timedelta_days 7) d c = Inr t"
proof -
  obtain tr where tr: "generer_transaction source_config d c = Inr tr"
    using generer_transaction_source_total by blast
  have "0 \<le> random_randint 0 (7 * 24) (r_offset d) \<and> random_randint 0 (7 * 24) (r_offset d) \<le> 7 * 24"
    by (rule randint_bounds) simp
  then have "datetime_add (now0 - timedelta_days 7)
      (timedelta_hours (random_randint 0 (7 * 24) (r_offset d)))
      = Inr (now0 - timedelta_days 7 + timedelta_hours (random_randint 0 (7 * 24) (r_offset d)))"
    using offset_ok [OF assms] by blast
  with tr show ?thesis by (simp add: iteration_def Let_def)
qed

lemma generer_boucle_Inr:
  "generer_boucle cfg base rng clk i k acc = Inr out \<Longrightarrow>
     \<exists>new. out = acc @ new \<and> length new = k
       \<and> (\<forall>j<k. iteration cfg base (rng (i + j)) (clk (i + j)) = Inr (new ! j))"
proof (induction k arbitrary: i acc)
  case 0
  then show ?case by simp
next
  case (Suc k)
  from Suc.prems obtain tr where tr: "iteration cfg base (rng i) (clk i) = Inr tr"
    and rest: "generer_boucle cfg base rng clk (Suc i) k (acc @ [tr]) = Inr out"
    by (auto split: sum.splits)
  from Suc.IH [OF rest] obtain new where new: "out = (acc @ [tr]) @ new" "length new = k"
    and each: "\<forall>j<k. iteration cfg base (rng (Suc i + j)) (clk (Suc i + j)) = Inr (new ! j)"
    by blast
  have "\<forall>j<Suc k. iteration cfg base (rng (i + j)) (clk (i + j)) = Inr ((tr # new) ! j)"
  proof (intro allI impI)
    fix j assume "j < Suc k"
    then show "iteration cfg base (rng (i + j)) (clk (i + j)) = Inr ((tr # new) ! j)"
      using tr each by (cases j) simp_all
  qed
  with new show ?case by (intro exI [of _ "tr # new"]) simp
qed

lemma generer_boucle_total:
  "(\<forall>j<k. \<exists>t. iteration cfg base (rng (i + j)) (clk (i + j)) = Inr t) \<Longrightarrow>
     \<exists>out. generer_boucle cfg base rng clk i k acc = Inr out"
proof (induction k arbitrary: i acc)
  case 0
  then show ?case by simp
next
  case (Suc k)
  from Suc.prems obtain tr where tr: "iteration cfg base (rng i) (clk i) = Inr tr"
    by (metis add.right_neutral zero_less_Suc)
  have "\<forall>j<k. \<exists>t. iteration cfg base (rng (Suc i + j)) (clk (Suc i + j)) = Inr t"
  proof (intro allI impI)
    fix j assume "j < k"
    then have "Suc j < Suc k" by simp
    with Suc.prems have "\<exists>t. iteration cfg base (rng (i + Suc j)) (clk (i + Suc j)) = Inr t"
      by blast
    then show "\<exists>t. iteration cfg base (rng (Suc i + j)) (clk (Suc i + j)) = Inr t" by simp
  qed
  from Suc.IH [OF this] tr show ?case by simp
qed

lemma generer_liste_Inr:
  assumes "generer_liste cfg now0 rng clk n = Inr xs"
  shows "datetime_add now0 (- timedelta_days 7) = Inr (now0 - timedelta_days 7)"
    and "length xs = nat n"
    and "\<forall>j<nat n. iteration cfg (now0 - timedelta_days 7) (rng j) (clk j) = Inr (xs ! j)"
proof -
  from assms obtain base where base: "datetime_add now0 (- timedelta_days 7) = Inr base"
    and loop: "generer_boucle cfg base rng clk 0 (nat n) [] = Inr xs"
    by (auto simp: generer_liste_def split: sum.splits)
  from datetime_add_Inr [OF base] have b: "base = now0 - timedelta_days 7" by simp
  with base show "datetime_add now0 (- timedelta_days 7) = Inr (now0 - timedelta_days 7)" by simp
  from generer_boucle_Inr [OF loop] b
  show "length xs = nat n"
    and "\<forall>j<nat n. iteration cfg (now0 - timedelta_days 7) (rng j) (clk j) = Inr (xs ! j)"
    by auto
qed

lemma generer_liste_source_total:
  assumes "clock_in_range now0"
  shows "\<exists>xs. generer_liste source_config now0 rng clk n = Inr xs"
proof -
  have "\<forall>j<nat n. \<exists>t. iteration source_config (now0 - timedelta_days 7) (rng (0 + j)) (clk (0 + j)) = Inr t"
    using iteration_source_total [OF assms] by blast
  from generer_boucle_total [OF this]
  show ?thesis by (simp add: generer_liste_def base_date_ok [OF assms])
qed

lemma generer_liste_rows:
  assumes "generer_liste cfg now0 rng clk n = Inr xs" and "t \<in> set xs"
  shows "\<exists>j<nat n. iteration cfg (now0 - timedelta_days 7) (rng j) (clk j) = Inr t"
proof -
  from assms(2) obtain j where "j < length xs" "xs ! j = t" by (auto simp: in_set_conv_nth)
  with generer_liste_Inr(2,3) [OF assms(1)] show ?thesis by auto
qed

lemma sorts_by_key_props:
  assumes "sorts_by_key sv"
  shows "sorted (map f (sv f xs))" and "mset (sv f xs) = mset xs"
    and "set (sv f xs) = set xs" and "length (sv f xs) = length xs"
proof -
  from assms show s: "sorted (map f (sv f xs))" and m: "mset (sv f xs) = mset xs"
    by (simp_all add: sorts_by_key_def)
  from m show "set (sv f xs) = set xs" by (rule mset_eq_setD)
  from m show "length (sv f xs) = length xs" by (rule mset_eq_length)
qed

lemma sorts_by_key_sort_key: "sorts_by_key sort_key"
  by (simp add: sorts_by_key_def)

lemma generer_batch_Inr:
  "generer_batch_transactions sv cfg now0 rng clk n = Inr df \<longleftrightarrow>
     (\<exists>xs. generer_liste cfg now0 rng clk n = Inr xs \<and> df = sv timestamp xs)"
  by (auto simp: generer_batch_transactions_def split: sum.splits)

subsection \<open>Times of day, seeded fields, rejected configurations\<close>

lemma seconds_of_day: "(d mod us_per_day) div 1000000 = (d div 1000000) mod 86400" for d :: int
proof -
  have "d mod (1000000 * 86400) = 1000000 * (d div 1000000 mod 86400) + d mod 1000000"
    by (rule zmod_zmult2_eq) simp
  then have "(d mod us_per_day) div 1000000
      = (1000000 * (d div 1000000 mod 86400) + d mod 1000000) div 1000000"
    by (simp add: us_per_day_def)
  also have "\<dots> = d div 1000000 mod 86400" by simp
  finally show ?thesis .
qed

lemma seconds_add_hours:
  "(d + timedelta_hours h) div 1000000 = d div 1000000 + h * 3600"
proof -
  have "d + timedelta_hours h = d + (h * 3600) * 1000000" by (simp add: timedelta_hours_def)
  then show ?thesis by simp
qed

lemma seconds_mod_hour:
  "((d + timedelta_hours h) mod us_per_day div 1000000) mod 3600
     = (d mod us_per_day div 1000000) mod 3600"
proof -
  have c: "(x mod 86400) mod 3600 = x mod 3600" for x :: int
    by (rule mod_mod_cancel) simp
  have "(d div 1000000 + h * 3600) mod 3600 = (d div 1000000) mod 3600" by simp
  then show ?thesis by (simp only: seconds_of_day seconds_add_hours c)
qed

lemma dt_minute_add_hours: "dt_minute (d + timedelta_hours h) = dt_minute d"
  by (simp only: dt_minute_def seconds_mod_hour)

lemma dt_second_add_hours: "dt_second (d + timedelta_hours h) = dt_second d"
proof -
  have c: "x mod 60 = (x mod 3600) mod 60" for x :: int
    by (rule mod_mod_cancel [symmetric]) simp
  have "((d + timedelta_hours h) mod us_per_day div 1000000) mod 60
      = (((d + timedelta_hours h) mod us_per_day div 1000000) mod 3600) mod 60"
    by (rule c)
  also have "\<dots> = ((d mod us_per_day div 1000000) mod 3600) mod 60"
    by (simp only: seconds_mod_hour)
  also have "\<dots> = (d mod us_per_day div 1000000) mod 60" by (rule c [symmetric])
  finally show ?thesis by (simp only: dt_second_def)
qed

lemma strftime_minute_second:
  "suffix ('':'' @ zfill 2 (str_int (dt_minute d)) @ '':'' @ zfill 2 (str_int (dt_second d)))
     (strftime d)"
  by (simp add: strftime_def suffix_def)

lemma generer_transaction_seeded:
  assumes "generer_transaction cfg d c = Inr t" and "generer_transaction cfg d c' = Inr t'"
  shows "seeded_fields t = seeded_fields t'"
proof -
  note a = generer_transaction_Inr [OF assms(1)] and b = generer_transaction_Inr [OF assms(2)]
  from a(1) b(1) have ty: "transaction_type t = transaction_type t'" by simp
  from a(2) b(2) ty have "amount t = amount t'" by simp
  moreover from a(3) b(3) have "city t = city t'" by simp
  moreover from a(4) b(4) have "operator t = operator t'" by simp
  moreover from a(5) b(5) have "user_id t = user_id t'" by simp
  moreover from a(8) b(8) have "status t = status t'" by simp
  ultimately show ?thesis using ty by (simp add: seeded_fields_def)
qed

lemma iteration_seeded:
  assumes "iteration cfg base d c = Inr t" and "iteration cfg base' d c' = Inr t'"
  shows "seeded_fields t = seeded_fields t'"
proof -
  from iteration_Inr [OF assms(1)] obtain tr where tr: "generer_transaction cfg d c = Inr tr"
    and t: "seeded_fields t = seeded_fields tr" by (auto simp: seeded_fields_def)
  from iteration_Inr [OF assms(2)] obtain tr' where tr': "generer_transaction cfg d c' = Inr tr'"
    and t': "seeded_fields t' = seeded_fields tr'" by (auto simp: seeded_fields_def)
  from generer_transaction_seeded [OF tr tr'] t t' show ?thesis by simp
qed

lemma generer_liste_seeded:
  assumes "generer_liste cfg now0 rng clk n = Inr xs"
    and "generer_liste cfg now0' rng clk' n = Inr ys"
  shows "map seeded_fields xs = map seeded_fields ys"
proof (rule nth_equalityI)
  note a = generer_liste_Inr [OF assms(1)] and b = generer_liste_Inr [OF assms(2)]
  from a(2) b(2) show "length (map seeded_fields xs) = length (map seeded_fields ys)" by simp
  fix j assume "j < length (map seeded_fields xs)"
  then have j: "j < nat n" using a(2) by simp
  with a(3) b(3) have "seeded_fields (xs ! j) = seeded_fields (ys ! j)"
    using iteration_seeded by blast
  with j a(2) b(2) show "map seeded_fields xs ! j = map seeded_fields ys ! j" by simp
qed

lemma np_random_choice_invalid:
  assumes "tt = [] \<or> atol < \<bar>sum_list (map snd tt) - 1\<bar>"
  shows "\<exists>e. np_random_choice (map fst tt) (map snd tt) r = Inl e"
  using assms by (auto simp: np_random_choice_def)

lemma generer_transaction_invalid:
  assumes "transaction_types cfg = []
         \<or> atol < \<bar>sum_list (map snd (transaction_types cfg)) - 1\<bar>
         \<or> villes cfg = [] \<or> operateurs cfg = []"
  shows "\<exists>e. generer_transaction cfg d c = Inl e"
proof (cases "generer_transaction cfg d c")
  case (Inl e)
  then show ?thesis by blast
next
  case (Inr t)
  note f = generer_transaction_Inr [OF Inr]
  from f(1) np_random_choice_invalid [of "transaction_types cfg" "u_type d"]
  have "\<not> (transaction_types cfg = []
      \<or> atol < \<bar>sum_list (map snd (transaction_types cfg)) - 1\<bar>)" by auto
  moreover from f(3) have "villes cfg \<noteq> []" by (auto simp: random_choice_def)
  moreover from f(4) have "operateurs cfg \<noteq> []" by (auto simp: random_choice_def)
  ultimately show ?thesis using assms by blast
qed

lemma generer_batch_invalid:
  assumes "0 < n"
    and "transaction_types cfg = []
         \<or> atol < \<bar>sum_list (map snd (transaction_types cfg)) - 1\<bar>
         \<or> villes cfg = [] \<or> operateurs cfg = []"
  shows "\<exists>e. generer_batch_transactions sv cfg now0 rng clk n = Inl e"
proof (cases "generer_batch_transactions sv cfg now0 rng clk n")
  case (Inl e)
  then show ?thesis by blast
next
  case (Inr df)
  then obtain xs where xs: "generer_liste cfg now0 rng clk n = Inr xs"
    by (auto simp: generer_batch_Inr)
  from assms(1) generer_liste_Inr(3) [OF xs]
  have "iteration cfg (now0 - timedelta_days 7) (rng 0) (clk 0) = Inr (xs ! 0)" by simp
  from iteration_Inr [OF this] generer_transaction_invalid [OF assms(2), of "rng 0" "clk 0"]
  show ?thesis by auto
qed

lemma generer_batch_weights:
  assumes "0 < n" "clock_in_range now0" "transaction_types cfg \<noteq> []"
    and "\<not> list_ex (\<lambda>x. x < 0) (map snd (transaction_types cfg))"
    and "atol < \<bar>sum_list (map snd (transaction_types cfg)) - 1\<bar>"
  shows "generer_batch_transactions sv cfg now0 rng clk n
           = Inl (ValueError ''probabilities do not sum to 1'')"
proof -
  from assms(3,4,5)
  have "np_random_choice (map fst (transaction_types cfg)) (map snd (transaction_types cfg)) r
      = Inl (ValueError ''probabilities do not sum to 1'')" for r
    by (simp add: np_random_choice_def)
  then have "iteration cfg base d c = Inl (ValueError ''probabilities do not sum to 1'')"
    for base d c
    by (simp add: iteration_def generer_transaction_def)
  moreover from assms(1) obtain k where "nat n = Suc k" by (cases "nat n") auto
  ultimately show ?thesis
    by (simp add: generer_batch_transactions_def generer_liste_def base_date_ok [OF assms(2)])
qed

lemma generer_montant_inverted_range:
  assumes "map_of (montant_ranges cfg) ty = Some (lo, hi)" and "hi < lo"
  shows "generer_montant cfg ty x = Inr (of_py_int lo)"
proof -
  have "py_max (of_py_int lo) (py_min (of_py_int hi) (py_round0 x)) = of_py_int lo"
    using assms(2) by (cases x) (auto simp: py_max_def py_min_def of_py_int_def)
  with assms(1) show ?thesis by (simp add: generer_montant_def)
qed

lemma batch_rows:
  assumes "sorts_by_key sv" and "clock_in_range now0"
  shows "\<exists>df. generer_batch_transactions sv source_config now0 rng clk n = Inr df
           \<and> (\<forall>t\<in>set df. \<exists>h. 0 \<le> h \<and> h \<le> 7 * 24
                 \<and> timestamp t = strftime (now0 - timedelta_days 7 + timedelta_hours h))"
proof -
  from generer_liste_source_total [OF assms(2)]
  obtain xs where xs: "generer_liste source_config now0 rng clk n = Inr xs" by blast
  let ?df = "sv timestamp xs"
  have b: "generer_batch_transactions sv source_config now0 rng clk n = Inr ?df"
    using xs by (simp add: generer_batch_Inr)
  have "\<exists>h. 0 \<le> h \<and> h \<le> 7 * 24
          \<and> timestamp t = strftime (now0 - timedelta_days 7 + timedelta_hours h)"
    if "t \<in> set ?df" for t
  proof -
    from that have "t \<in> set xs" using sorts_by_key_props(3) [OF assms(1)] by simp
    from generer_liste_rows [OF xs this] obtain j
      where "iteration source_config (now0 - timedelta_days 7) (rng j) (clk j) = Inr t"
      by blast
    from iteration_Inr [OF this]
    have ts: "timestamp t = strftime (now0 - timedelta_days 7
        + timedelta_hours (random_randint 0 (7 * 24) (r_offset (rng j))))"
      by auto
    have "0 \<le> random_randint 0 (7 * 24) (r_offset (rng j))
        \<and> random_randint 0 (7 * 24) (r_offset (rng j)) \<le> 7 * 24"
      by (rule randint_bounds) simp
    with ts show ?thesis by blast
  qed
  with b show ?thesis by blast
qed

subsection \<open>The sample run, evaluated\<close>

lemmas str_defs = str_int_def str_nat.simps digit_char_def

lemma ex_type:
  "np_random_choice (map fst (transaction_types source_config))
     (map snd (transaction_types source_config)) (u_type tirage0) = Inr ''transfer''"
  "np_random_choice (map fst (transaction_types source_config))
     (map snd (transaction_types source_config)) (u_type tirage1) = Inr ''payment''"
  by (simp_all add: tirage0_def tirage1_def source_types np_random_choice_def
      TRANSACTION_TYPES_def atol_def Let_def searchsorted_right_def random_sample_def)

lemma ex_montant:
  "generer_montant source_config ''transfer'' (ln_montant tirage0) = Inr (Finite 25000)"
  "generer_montant source_config ''payment'' (ln_montant tirage1) = Inr (Finite 25000)"
  by (simp_all add: tirage0_def tirage1_def generer_montant_def source_config_def
      MONTANT_RANGES_def py_max_def py_min_def of_py_int_def round_half_even_def Let_def)

lemma ex_city:
  "random_choice (villes source_config) (r_city tirage0) = Inr ''Saint-Louis''"
  "random_choice (villes source_config) (r_city tirage1) = Inr ''Kaolack''"
  by (simp_all add: tirage0_def tirage1_def random_choice_def randbelow_def source_config_def
      VILLES_def)

lemma ex_operator:
  "random_choice (operateurs source_config) (r_operator tirage0) = Inr ''Free Money''"
  "random_choice (operateurs source_config) (r_operator tirage1) = Inr ''Wizall''"
  by (simp_all add: tirage0_def tirage1_def random_choice_def randbelow_def source_config_def
      OPERATEURS_def)

lemma ex_user:
  "generer_user_id (r_prefix tirage0) (r_numero tirage0) = Inr ''user_701000123''"
  "generer_user_id (r_prefix tirage1) (r_numero tirage1) = Inr ''user_751000124''"
  by (simp_all add: tirage0_def tirage1_def generer_user_id_def random_choice_def
      randbelow_def prefixes_def random_randint_def str_defs Let_def)

lemma ex_ms0: "str_int (py_int (time_time horloge0 * 1000)) = ''1793750096789''"
  by (simp add: horloge0_def py_int_def str_defs)

lemma ex_ms1: "str_int (py_int (time_time horloge1 * 1000)) = ''1793750096789''"
  by (simp add: horloge1_def py_int_def str_defs)

lemma ex_suffix:
  "str_int (random_randint 1000 9999 (r_suffix tirage0)) = ''1042''"
  "str_int (random_randint 1000 9999 (r_suffix tirage1)) = ''1042''"
  by (simp_all add: tirage0_def tirage1_def random_randint_def randbelow_def str_defs)

lemmas strftime_defs = strftime_def strftime_date_def ord2ymd_def toordinal_def us_per_day_def
  dt_hour_def dt_minute_def dt_second_def zfill_def DAYS_BEFORE_MONTH_def DAYS_IN_MONTH_def
  Let_def str_defs

lemma ex_strftime_now: "strftime (now_dt horloge0) = ''2026-11-03 10:34:56''"
  by (simp add: horloge0_def strftime_defs)

lemma ex_strftime: "strftime 63928874096789000 = ''2026-10-29 12:34:56''"
  by (simp add: strftime_defs)

lemma ex_offset:
  "datetime_add (exemple_now - timedelta_days 7)
     (timedelta_hours (random_randint 0 168 (r_offset tirage0))) = Inr 63928874096789000"
  "datetime_add (exemple_now - timedelta_days 7)
     (timedelta_hours (random_randint 0 168 (r_offset tirage1))) = Inr 63928874096789000"
  by (simp_all add: tirage0_def tirage1_def datetime_add_def exemple_now_def
      timedelta_days_def timedelta_hours_def random_randint_def randbelow_def toordinal_def
      us_per_day_def MAXORDINAL_def Let_def)

lemma exemple_transaction0:
  "generer_transaction source_config tirage0 horloge0
     = Inr (exemple_ligne0\<lparr>timestamp := ''2026-11-03 10:34:56''\<rparr>)"
  by (simp add: generer_transaction_def exemple_ligne0_def
      ex_type ex_montant ex_city ex_operator ex_user ex_ms0 ex_suffix ex_strftime_now)

lemma exemple_iteration0:
  "iteration source_config (exemple_now - timedelta_days 7) (exemple_rng 0) (exemple_clk 0)
     = Inr exemple_ligne0"
  by (simp add: iteration_def exemple_rng_def exemple_clk_def exemple_transaction0
      exemple_ligne0_def ex_offset ex_strftime)

lemma exemple_iteration1:
  "iteration source_config (exemple_now - timedelta_days 7) (exemple_rng (Suc 0))
     (exemple_clk (Suc 0)) = Inr exemple_ligne1"
  by (simp add: iteration_def generer_transaction_def exemple_rng_def exemple_clk_def
      exemple_ligne1_def
      ex_type ex_montant ex_city ex_operator ex_user ex_ms1 ex_suffix ex_offset ex_strftime)

lemma exemple_now_in_range: "clock_in_range exemple_now"
  by (simp add: clock_in_range_def exemple_now_def timedelta_days_def toordinal_def
      us_per_day_def MAXORDINAL_def)

lemma nat_2: "nat 2 = Suc (Suc 0)" and nat_1: "nat 1 = Suc 0"
  by simp_all

lemma exemple_liste:
  "generer_liste source_config exemple_now exemple_rng exemple_clk 2
     = Inr [exemple_ligne0, exemple_ligne1]"
  by (simp only: generer_liste_def base_date_ok [OF exemple_now_in_range] sum.case nat_2
      generer_boucle.simps exemple_iteration0 exemple_iteration1 append_Nil append_Cons)

lemma exemple_liste1:
  "generer_liste source_config exemple_now exemple_rng exemple_clk 1 = Inr [exemple_ligne0]"
  by (simp only: generer_liste_def base_date_ok [OF exemple_now_in_range] sum.case nat_1
      generer_boucle.simps exemple_iteration0 append_Nil append_Cons)

lemma ex_strftime_now1: "strftime (now_dt horloge1) = ''2026-11-03 10:34:56''"
  by (simp add: horloge1_def strftime_defs)

lemma exemple_transaction1:
  "generer_transaction source_config tirage1 horloge1
     = Inr (exemple_ligne1\<lparr>timestamp := ''2026-11-03 10:34:56''\<rparr>)"
  by (simp add: generer_transaction_def exemple_ligne1_def
      ex_type ex_montant ex_city ex_operator ex_user ex_ms1 ex_suffix ex_strftime_now1)

lemma sort_key_pair:
  "f a \<le> f b \<Longrightarrow> sort_key f [a, b] = [a, b]"
  "f b \<le> f a \<Longrightarrow> sort_key f (rev [a, b]) = [b, a]"
  by (simp_all add: sort_key_def)


lemma exemple_same_timestamp: "timestamp exemple_ligne0 = timestamp exemple_ligne1"
  by (simp add: exemple_ligne0_def exemple_ligne1_def)

lemma exemple_batch2:
  "generer_batch_transactions sort_key source_config exemple_now exemple_rng exemple_clk 2
     = Inr [exemple_ligne0, exemple_ligne1]"
  using exemple_same_timestamp
  by (simp add: generer_batch_transactions_def exemple_liste sort_key_pair(1))

lemma exemple_batch1:
  "generer_batch_transactions sort_key source_config exemple_now exemple_rng exemple_clk 1
     = Inr [exemple_ligne0]"
  by (simp add: generer_batch_transactions_def exemple_liste1 sort_key_def)

lemma autre_now_in_range: "clock_in_range autre_now"
  by (simp add: clock_in_range_def autre_now_def timedelta_days_def toordinal_def
      us_per_day_def MAXORDINAL_def)

lemma ex_autre_ms: "str_int (py_int (time_time (autre_clk 0) * 1000)) = ''1793836503789''"
  by (simp add: autre_clk_def py_int_def str_defs)

lemma ex_autre_offset:
  "datetime_add (autre_now - timedelta_days 7)
     (timedelta_hours (random_randint 0 168 (r_offset tirage0))) = Inr 63928960503789000"
  by (simp add: tirage0_def datetime_add_def autre_now_def timedelta_days_def
      timedelta_hours_def random_randint_def randbelow_def toordinal_def us_per_day_def
      MAXORDINAL_def Let_def)

lemma ex_autre_strftime: "strftime 63928960503789000 = ''2026-10-30 12:35:03''"
  by (simp add: strftime_defs)

lemma autre_iteration0:
  "iteration source_config (autre_now - timedelta_days 7) (exemple_rng 0) (autre_clk 0)
     = Inr autre_ligne0"
  by (simp add: iteration_def generer_transaction_def exemple_rng_def autre_ligne0_def
      ex_type ex_montant ex_city ex_operator ex_user ex_autre_ms ex_suffix ex_autre_offset
      ex_autre_strftime)

lemma autre_liste1:
  "generer_liste source_config autre_now exemple_rng autre_clk 1 = Inr [autre_ligne0]"
  by (simp only: generer_liste_def base_date_ok [OF autre_now_in_range] sum.case nat_1
      generer_boucle.simps autre_iteration0 append_Nil append_Cons)

lemma autre_batch1:
  "generer_batch_transactions sort_key source_config autre_now exemple_rng autre_clk 1
     = Inr [autre_ligne0]"
  by (simp add: generer_batch_transactions_def autre_liste1 sort_key_def)

lemma min_sup_max_tables:
  "transaction_types config_min_sup_max = transaction_types source_config"
  "villes config_min_sup_max = villes source_config"
  "operateurs config_min_sup_max = operateurs source_config"
  by (simp_all add: config_min_sup_max_def)

lemma ex_montant_min_sup_max:
  "generer_montant config_min_sup_max ''transfer'' (ln_montant tirage0) = Inr (Finite 100000)"
  by (simp add: tirage0_def generer_montant_def config_min_sup_max_def py_max_def py_min_def
      of_py_int_def round_half_even_def Let_def)

lemma min_sup_max_iteration0:
  "iteration config_min_sup_max (exemple_now - timedelta_days 7) (exemple_rng 0) (exemple_clk 0)
     = Inr (exemple_ligne0\<lparr>amount := Finite 100000\<rparr>)"
  by (simp add: iteration_def generer_transaction_def exemple_rng_def exemple_clk_def
      exemple_ligne0_def min_sup_max_tables
      ex_type ex_montant_min_sup_max ex_city ex_operator ex_user ex_ms0 ex_suffix ex_offset
      ex_strftime)

lemma min_sup_max_liste1:
  "generer_liste config_min_sup_max exemple_now exemple_rng exemple_clk 1
     = Inr [exemple_ligne0\<lparr>amount := Finite 100000\<rparr>]"
  by (simp only: generer_liste_def base_date_ok [OF exemple_now_in_range] sum.case nat_1
      generer_boucle.simps min_sup_max_iteration0 append_Nil append_Cons)

lemma poids_faux_facts:
  "transaction_types config_poids_faux \<noteq> []"
  "\<not> list_ex (\<lambda>x. x < 0) (map snd (transaction_types config_poids_faux))"
  "atol < \<bar>sum_list (map snd (transaction_types config_poids_faux)) - 1\<bar>"
  by (simp_all add: config_poids_faux_def atol_def)

subsection \<open>Amounts\<close>

text \<open>
  C1.  Whatever the random values and the clock, the record generator returns a record
  under the script's configuration; the amount of that record is what \<open>generer_montant\<close>
  returns for the record's type and the log-normal draw, it is a whole number, and it
  lies between the two bounds that \<open>MONTANT_RANGES\<close> gives for that type, both
  included.  The draw ranges over every float, NaN and the infinities included.
\<close>

theorem amount_within_type_range:
  "\<exists>t lo hi k.
      generer_transaction source_config d c = Inr t
    \<and> map_of MONTANT_RANGES (transaction_type t) = Some (lo, hi)
    \<and> generer_montant source_config (transaction_type t) (ln_montant d) = Inr (amount t)
    \<and> amount t = Finite (of_int k) \<and> lo \<le> k \<and> k \<le> hi"
proof -
  obtain t where t: "generer_transaction source_config d c = Inr t"
    using generer_transaction_source_total by blast
  have "transaction_type t \<in> set (map fst (transaction_types source_config))"
    using generer_transaction_Inr(1) [OF t] by (rule np_random_choice_mem)
  from source_ranges [OF this]
  obtain lo hi where r: "map_of MONTANT_RANGES (transaction_type t) = Some (lo, hi)" "lo \<le> hi"
    and r': "map_of (montant_ranges source_config) (transaction_type t) = Some (lo, hi)"
    by blast
  from generer_montant_range [OF r' r(2), of "ln_montant d"]
  obtain k where k: "generer_montant source_config (transaction_type t) (ln_montant d)
      = Inr (Finite (of_int k))" "lo \<le> k" "k \<le> hi"
    by blast
  with generer_transaction_Inr(2) [OF t] have "amount t = Finite (of_int k)" by simp
  with t r k generer_transaction_Inr(2) [OF t] show ?thesis by blast
qed

theorem amount_within_type_range_witness:
  "\<exists>t lo hi k.
      generer_transaction source_config
        \<lparr>u_type = 5, ln_montant = Finite (50001 / 2), r_city = 7, r_operator = 2, r_prefix = 3,
         r_numero = 123, r_suffix = 42, r_offset = 50\<rparr>
        \<lparr>now_dt = 63929298896789012, time_time = 1793750096789012 / 1000000\<rparr> = Inr t
    \<and> map_of MONTANT_RANGES (transaction_type t) = Some (lo, hi)
    \<and> generer_montant source_config (transaction_type t) (Finite (50001 / 2)) = Inr (amount t)
    \<and> amount t = Finite (of_int k) \<and> lo \<le> k \<and> k \<le> hi"
  using amount_within_type_range
    [of "\<lparr>u_type = 5, ln_montant = Finite (50001 / 2), r_city = 7, r_operator = 2, r_prefix = 3,
          r_numero = 123, r_suffix = 42, r_offset = 50\<rparr>"
        "\<lparr>now_dt = 63929298896789012, time_time = 1793750096789012 / 1000000\<rparr>"]
  by simp

subsection \<open>Identifiers\<close>

text \<open>
  C7.  The \<open>user_id\<close> of every generated record is \<open>user_\<close>, then one of the five
  prefixes 77, 78, 76, 70, 75 (two digits), then the decimal rendering of the number
  \<open>random.randint(1000000, 9999999)\<close> returned, which lies in that range and has exactly
  seven digits.  (Every number of the range is reached by some draw: \<open>randint_onto\<close>.)
\<close>

theorem user_id_format:
  assumes "generer_transaction cfg d c = Inr t"
  shows "\<exists>p k. user_id t = ''user_'' @ p @ str_int k
           \<and> p \<in> {''77'', ''78'', ''76'', ''70'', ''75''}
           \<and> length p = 2 \<and> set p \<subseteq> decimal_digits
           \<and> k = random_randint 1000000 9999999 (r_numero d)
           \<and> 1000000 \<le> k \<and> k \<le> 9999999
           \<and> length (str_int k) = 7 \<and> set (str_int k) \<subseteq> decimal_digits"
proof -
  let ?k = "random_randint 1000000 9999999 (r_numero d)"
  from generer_user_id_shape [of "r_prefix d" "r_numero d"]
  obtain p where p: "p \<in> set prefixes"
    and u: "generer_user_id (r_prefix d) (r_numero d) = Inr (''user_'' @ p @ str_int ?k)"
    by blast
  from u generer_transaction_Inr(5) [OF assms]
  have uid: "user_id t = ''user_'' @ p @ str_int ?k" by simp
  have b: "1000000 \<le> ?k \<and> ?k \<le> 9999999" by (rule randint_bounds) simp
  then have "10 ^ 6 \<le> ?k" "?k < 10 ^ Suc 6" by simp_all
  from str_int_length [OF this]
  have len: "length (str_int ?k) = 7" "set (str_int ?k) \<subseteq> decimal_digits" by simp_all
  from p have "p \<in> {''77'', ''78'', ''76'', ''70'', ''75''}" by (simp add: prefixes_def)
  with uid b len prefixes_shape [OF p] show ?thesis by blast
qed

theorem user_id_format_witness:
  "generer_transaction source_config tirage0 horloge0
     = Inr (exemple_ligne0\<lparr>timestamp := ''2026-11-03 10:34:56''\<rparr>)
   \<and> (\<exists>p k. user_id (exemple_ligne0\<lparr>timestamp := ''2026-11-03 10:34:56''\<rparr>)
               = ''user_'' @ p @ str_int k
           \<and> p \<in> {''77'', ''78'', ''76'', ''70'', ''75''}
           \<and> length p = 2 \<and> set p \<subseteq> decimal_digits
           \<and> k = random_randint 1000000 9999999 (r_numero tirage0)
           \<and> 1000000 \<le> k \<and> k \<le> 9999999
           \<and> length (str_int k) = 7 \<and> set (str_int k) \<subseteq> decimal_digits)"
  using user_id_format [OF exemple_transaction0] exemple_transaction0 by blast

text \<open>
  C9.  The \<open>transaction_id\<close> of every generated record is \<open>TXN\<close>, then the decimal
  rendering of \<open>int(time.time() * 1000)\<close>, then one underscore, then the decimal
  rendering of a number between 1000 and 9999, which has four digits.  The time part
  holds digits and at most a minus sign, so the identifier contains exactly one underscore.
\<close>

theorem transaction_id_shape:
  assumes "generer_transaction cfg d c = Inr t"
  shows "\<exists>ms s. ms = py_int (time_time c * 1000)
           \<and> s = random_randint 1000 9999 (r_suffix d)
           \<and> transaction_id t = ''TXN'' @ str_int ms @ ''_'' @ str_int s
           \<and> set (str_int ms) \<subseteq> insert CHR ''-'' decimal_digits
           \<and> 1000 \<le> s \<and> s \<le> 9999
           \<and> length (str_int s) = 4 \<and> set (str_int s) \<subseteq> decimal_digits
           \<and> count_list (transaction_id t) CHR ''_'' = 1"
proof -
  let ?ms = "py_int (time_time c * 1000)"
  let ?s = "random_randint 1000 9999 (r_suffix d)"
  have tid: "transaction_id t = ''TXN'' @ str_int ?ms @ ''_'' @ str_int ?s"
    by (rule generer_transaction_Inr(6) [OF assms])
  have b: "1000 \<le> ?s \<and> ?s \<le> 9999" by (rule randint_bounds) simp
  then have "10 ^ 3 \<le> ?s" "?s < 10 ^ Suc 3" by simp_all
  from str_int_length [OF this]
  have len: "length (str_int ?s) = 4" "set (str_int ?s) \<subseteq> decimal_digits" by simp_all
  have "count_list (transaction_id t) CHR ''_'' = 1"
    unfolding tid by (rule count_underscore) (rule underscore_notin_str_int)+
  with tid b len str_int_chars [of ?ms] show ?thesis by blast
qed

theorem transaction_id_shape_witness:
  "generer_transaction source_config tirage0 horloge0
     = Inr (exemple_ligne0\<lparr>timestamp := ''2026-11-03 10:34:56''\<rparr>)
   \<and> (\<exists>ms s. ms = py_int (time_time horloge0 * 1000)
           \<and> s = random_randint 1000 9999 (r_suffix tirage0)
           \<and> transaction_id (exemple_ligne0\<lparr>timestamp := ''2026-11-03 10:34:56''\<rparr>)
               = ''TXN'' @ str_int ms @ ''_'' @ str_int s
           \<and> set (str_int ms) \<subseteq> insert CHR ''-'' decimal_digits
           \<and> 1000 \<le> s \<and> s \<le> 9999
           \<and> length (str_int s) = 4 \<and> set (str_int s) \<subseteq> decimal_digits
           \<and> count_list (transaction_id (exemple_ligne0\<lparr>timestamp := ''2026-11-03 10:34:56''\<rparr>))
                CHR ''_'' = 1)"
  using transaction_id_shape [OF exemple_transaction0] exemple_transaction0 by blast

subsection \<open>The batch\<close>

text \<open>
  C2.  Under the script's configuration, for every count \<open>n\<close>, every random values and
  every clock readings (the batch start not within the first week of year 1), and every
  sorting routine that meets the contract of \<open>sort_values\<close>, the batch assembler returns
  a data frame of \<open>n\<close> rows (none for \<open>n \<le> 0\<close>) whose \<open>timestamp\<close> column is
  ascending: each row's timestamp is at most the next row's, as strings.
\<close>

theorem batch_sorted_by_timestamp:
  assumes "sorts_by_key sv" and "clock_in_range now0"
  shows "\<exists>df. generer_batch_transactions sv source_config now0 rng clk n = Inr df
           \<and> length df = nat n
           \<and> sorted (map timestamp df)
           \<and> (\<forall>i. Suc i < length df \<longrightarrow> timestamp (df ! i) \<le> timestamp (df ! Suc i))"
proof -
  from generer_liste_source_total [OF assms(2)]
  obtain xs where xs: "generer_liste source_config now0 rng clk n = Inr xs" by blast
  let ?df = "sv timestamp xs"
  have b: "generer_batch_transactions sv source_config now0 rng clk n = Inr ?df"
    using xs by (simp add: generer_batch_Inr)
  note p = sorts_by_key_props [OF assms(1), of timestamp xs]
  have len: "length ?df = nat n" using p(4) generer_liste_Inr(2) [OF xs] by simp
  have adj: "\<forall>i. Suc i < length ?df \<longrightarrow> timestamp (?df ! i) \<le> timestamp (?df ! Suc i)"
  proof (intro allI impI)
    fix i assume i: "Suc i < length ?df"
    with p(1) have "map timestamp ?df ! i \<le> map timestamp ?df ! Suc i"
      by (simp add: sorted_iff_nth_Suc)
    with i show "timestamp (?df ! i) \<le> timestamp (?df ! Suc i)" by simp
  qed
  from b len p(1) adj show ?thesis by blast
qed

theorem batch_sorted_by_timestamp_witness:
  "\<exists>df. generer_batch_transactions sort_key source_config exemple_now exemple_rng exemple_clk 2
           = Inr df
       \<and> length df = nat 2
       \<and> sorted (map timestamp df)
       \<and> (\<forall>i. Suc i < length df \<longrightarrow> timestamp (df ! i) \<le> timestamp (df ! Suc i))"
  by (rule batch_sorted_by_timestamp [OF sorts_by_key_sort_key exemple_now_in_range])



text \<open>
  C10.  Under the same conditions every timestamp of the data frame ends with the minute
  and the second of the anchor, and the timestamps of one batch take at most 169 distinct
  values.
\<close>

theorem timestamps_share_minute_second:
  assumes "sorts_by_key sv" and "clock_in_range now0"
  shows "\<exists>df. generer_batch_transactions sv source_config now0 rng clk n = Inr df
           \<and> (\<forall>t\<in>set df.
                 suffix ('':'' @ zfill 2 (str_int (dt_minute (now0 - timedelta_days 7)))
                          @ '':'' @ zfill 2 (str_int (dt_second (now0 - timedelta_days 7))))
                   (timestamp t))
           \<and> card (set (map timestamp df)) \<le> 169"
proof -
  let ?base = "now0 - timedelta_days 7"
  let ?f = "\<lambda>h. strftime (?base + timedelta_hours h)"
  from batch_rows [OF assms, of rng clk n] obtain df
    where b: "generer_batch_transactions sv source_config now0 rng clk n = Inr df"
      and rows: "\<forall>t\<in>set df. \<exists>h. 0 \<le> h \<and> h \<le> 7 * 24 \<and> timestamp t = ?f h"
    by blast
  have suf: "suffix ('':'' @ zfill 2 (str_int (dt_minute ?base))
                  @ '':'' @ zfill 2 (str_int (dt_second ?base))) (timestamp t)"
    if "t \<in> set df" for t
  proof -
    from rows that obtain h where "timestamp t = ?f h" by blast
    then show ?thesis
      using strftime_minute_second [of "?base + timedelta_hours h"]
      by (simp only: dt_minute_add_hours dt_second_add_hours)
  qed
  have "set (map timestamp df) \<subseteq> ?f ` {0..168}"
  proof
    fix s assume "s \<in> set (map timestamp df)"
    then obtain t where t: "t \<in> set df" "s = timestamp t" by auto
    with rows obtain h where "0 \<le> h" "h \<le> 7 * 24" "s = ?f h" by auto
    then show "s \<in> ?f ` {0..168}" by auto
  qed
  then have "card (set (map timestamp df)) \<le> card {0..168::int}"
    by (rule surj_card_le [rotated]) simp
  then have "card (set (map timestamp df)) \<le> 169" by simp
  with b suf show ?thesis by blast
qed

theorem timestamps_share_minute_second_witness:
  "\<exists>df. generer_batch_transactions sort_key source_config exemple_now exemple_rng exemple_clk 2
           = Inr df
           \<and> (\<forall>t\<in>set df.
                 suffix ('':'' @ zfill 2 (str_int (dt_minute (exemple_now - timedelta_days 7)))
                          @ '':'' @ zfill 2 (str_int (dt_second (exemple_now - timedelta_days 7))))
                   (timestamp t))
           \<and> card (set (map timestamp df)) \<le> 169"
  by (rule timestamps_share_minute_second [OF sorts_by_key_sort_key exemple_now_in_range])

subsection \<open>What the code does not guarantee\<close>

text \<open>
  C6, counterexample.  In the sample run two records are built within the same
  millisecond and draw the same suffix: the data frame holds two rows, of different
  users, with the same \<open>transaction_id\<close>.
\<close>

theorem duplicate_transaction_id:
  "generer_batch_transactions sort_key source_config exemple_now exemple_rng exemple_clk 2
     = Inr [exemple_ligne0, exemple_ligne1]
   \<and> transaction_id exemple_ligne0 = ''TXN1793750096789_1042''
   \<and> transaction_id exemple_ligne1 = ''TXN1793750096789_1042''
   \<and> user_id exemple_ligne0 \<noteq> user_id exemple_ligne1
   \<and> \<not> distinct (map transaction_id [exemple_ligne0, exemple_ligne1])"
  using exemple_batch2 by (simp add: exemple_ligne0_def exemple_ligne1_def)

text \<open>
  C6, as amended.  The \<open>transaction_id\<close> is derived from the generation time in
  milliseconds and a random suffix between 1000 and 9999, and nothing else: two generated
  records have the same identifier exactly when they were built in the same millisecond
  and drew the same suffix.  Identifiers are therefore unique in a run only when no two
  records share both.
\<close>

theorem transaction_id_equal_iff:
  assumes "generer_transaction cfg d c = Inr t"
    and "generer_transaction cfg' d' c' = Inr t'"
  shows "transaction_id t = transaction_id t' \<longleftrightarrow>
           py_int (time_time c * 1000) = py_int (time_time c' * 1000)
         \<and> random_randint 1000 9999 (r_suffix d) = random_randint 1000 9999 (r_suffix d')"
proof -
  have "str_int a @ CHR ''_'' # str_int b = str_int a' @ CHR ''_'' # str_int b'
          \<longleftrightarrow> a = a' \<and> b = b'" for a b a' b'
    using append_Cons_eq_iff [OF underscore_notin_str_int underscore_notin_str_int]
      str_int_inj by blast
  then show ?thesis
    by (simp add: generer_transaction_Inr(6) [OF assms(1)] generer_transaction_Inr(6) [OF assms(2)])
qed

theorem transaction_id_equal_iff_witness:
  "generer_transaction source_config tirage0 horloge0
     = Inr (exemple_ligne0\<lparr>timestamp := ''2026-11-03 10:34:56''\<rparr>)
   \<and> generer_transaction source_config tirage1 horloge1
     = Inr (exemple_ligne1\<lparr>timestamp := ''2026-11-03 10:34:56''\<rparr>)
   \<and> (transaction_id (exemple_ligne0\<lparr>timestamp := ''2026-11-03 10:34:56''\<rparr>)
         = transaction_id (exemple_ligne1\<lparr>timestamp := ''2026-11-03 10:34:56''\<rparr>)
       \<longleftrightarrow>
         py_int (time_time horloge0 * 1000) = py_int (time_time horloge1 * 1000)
       \<and> random_randint 1000 9999 (r_suffix tirage0) = random_randint 1000 9999 (r_suffix tirage1))"
  using transaction_id_equal_iff [OF exemple_transaction0 exemple_transaction1]
    exemple_transaction0 exemple_transaction1
  by blast

text \<open>
  C3, counterexample.  Two runs with the script's configuration and the same random
  values, the second started one day and seven seconds after the first, return different
  data frames: the \<open>transaction_id\<close> and the \<open>timestamp\<close> of the row differ, since
  both are computed from the clock.
\<close>

theorem runs_differ_with_the_clock:
  "generer_batch_transactions sort_key source_config exemple_now exemple_rng exemple_clk 1
     = Inr [exemple_ligne0]
   \<and> generer_batch_transactions sort_key source_config autre_now exemple_rng autre_clk 1
     = Inr [autre_ligne0]
   \<and> transaction_id exemple_ligne0 = ''TXN1793750096789_1042''
   \<and> transaction_id autre_ligne0 = ''TXN1793836503789_1042''
   \<and> timestamp exemple_ligne0 = ''2026-10-29 12:34:56''
   \<and> timestamp autre_ligne0 = ''2026-10-30 12:35:03''
   \<and> [exemple_ligne0] \<noteq> [autre_ligne0]"
  using exemple_batch1 autre_batch1 by (simp add: exemple_ligne0_def autre_ligne0_def)

text \<open>
  C3, as amended.  Two runs with the same configuration and the same random values (the
  same seeds) generate, whatever the clock readings, records that agree one by one, in
  generation order, on \<open>user_id\<close>, \<open>amount\<close>, \<open>city\<close>, \<open>transaction_type\<close>,
  \<open>operator\<close> and \<open>status\<close>; each data frame is a permutation of the records of its
  run.  The \<open>transaction_id\<close> and \<open>timestamp\<close> columns depend on the clock.
\<close>

theorem seeded_fields_reproducible:
  assumes "sorts_by_key sv"
    and "generer_batch_transactions sv cfg now0 rng clk n = Inr df"
    and "generer_batch_transactions sv cfg now0' rng clk' n = Inr df'"
  shows "\<exists>xs ys. generer_liste cfg now0 rng clk n = Inr xs
           \<and> generer_liste cfg now0' rng clk' n = Inr ys
           \<and> map seeded_fields xs = map seeded_fields ys
           \<and> mset df = mset xs \<and> mset df' = mset ys"
proof -
  from assms(2) obtain xs where xs: "generer_liste cfg now0 rng clk n = Inr xs"
    and df: "df = sv timestamp xs"
    by (auto simp: generer_batch_Inr)
  from assms(3) obtain ys where ys: "generer_liste cfg now0' rng clk' n = Inr ys"
    and df': "df' = sv timestamp ys"
    by (auto simp: generer_batch_Inr)
  from generer_liste_seeded [OF xs ys] xs ys df df'
    sorts_by_key_props(2) [OF assms(1), of timestamp]
  show ?thesis by auto
qed

theorem seeded_fields_reproducible_witness:
  "generer_batch_transactions sort_key source_config exemple_now exemple_rng exemple_clk 1
     = Inr [exemple_ligne0]
   \<and> generer_batch_transactions sort_key source_config autre_now exemple_rng autre_clk 1
     = Inr [autre_ligne0]
   \<and> (\<exists>xs ys. generer_liste source_config exemple_now exemple_rng exemple_clk 1 = Inr xs
           \<and> generer_liste source_config autre_now exemple_rng autre_clk 1 = Inr ys
           \<and> map seeded_fields xs = map seeded_fields ys
           \<and> mset [exemple_ligne0] = mset xs \<and> mset [autre_ligne0] = mset ys)"
  using seeded_fields_reproducible [OF sorts_by_key_sort_key exemple_batch1 autre_batch1]
    exemple_batch1 autre_batch1
  by blast




text \<open>
  C8, counterexample.  With the range of \<open>transfer\<close> set to \<open>(100000, 1000)\<close>, lower
  bound above upper bound, nothing is raised: the batch returns a row, whose amount is the
  lower bound.
\<close>

theorem inverted_range_still_generates:
  "map_of (montant_ranges config_min_sup_max) ''transfer'' = Some (100000, 1000)
   \<and> generer_batch_transactions sort_key config_min_sup_max exemple_now exemple_rng exemple_clk 1
       = Inr [exemple_ligne0\<lparr>amount := Finite 100000\<rparr>]"
proof -
  have "map_of (montant_ranges config_min_sup_max) ''transfer'' = Some (100000, 1000)"
    by (simp add: config_min_sup_max_def)
  moreover have "generer_batch_transactions sort_key config_min_sup_max exemple_now exemple_rng
      exemple_clk 1 = Inr [exemple_ligne0\<lparr>amount := Finite 100000\<rparr>]"
    by (simp add: generer_batch_transactions_def min_sup_max_liste1 sort_key_def)
  ultimately show ?thesis by blast
qed

text \<open>
  C8, as amended.  The script validates nothing itself.  A batch of at least one record
  fails, returning no record, when the type table is empty, when its weights sum to 1 only
  beyond the tolerance of \<open>np.random.choice\<close>, or when the city or operator list is
  empty: the library call made while the first record is generated raises.  For a
  non-empty table of non-negative weights the error is the \<open>ValueError\<close>
  \<open>probabilities do not sum to 1\<close>.  An amount range whose lower bound exceeds its upper
  bound is not detected: every amount of that type is the lower bound.
\<close>

theorem invalid_configuration_behaviour:
  "(0 < n \<and> (transaction_types cfg = []
              \<or> atol < \<bar>sum_list (map snd (transaction_types cfg)) - 1\<bar>
              \<or> villes cfg = [] \<or> operateurs cfg = [])
      \<longrightarrow> (\<exists>e. generer_batch_transactions sv cfg now0 rng clk n = Inl e))
   \<and> (0 < n \<and> clock_in_range now0 \<and> transaction_types cfg \<noteq> []
        \<and> \<not> list_ex (\<lambda>x. x < 0) (map snd (transaction_types cfg))
        \<and> atol < \<bar>sum_list (map snd (transaction_types cfg)) - 1\<bar>
      \<longrightarrow> generer_batch_transactions sv cfg now0 rng clk n
            = Inl (ValueError ''probabilities do not sum to 1''))
   \<and> (map_of (montant_ranges cfg') ty = Some (lo, hi) \<and> hi < lo
      \<longrightarrow> generer_montant cfg' ty x = Inr (of_py_int lo))"
  using generer_batch_invalid [of n cfg sv now0 rng clk]
    generer_batch_weights [of n now0 cfg sv rng clk]
    generer_montant_inverted_range [of cfg' ty lo hi x]
  by blast

theorem invalid_configuration_behaviour_witness:
  "(\<exists>e. generer_batch_transactions sort_key config_poids_faux exemple_now exemple_rng
          exemple_clk 1 = Inl e)
   \<and> generer_batch_transactions sort_key config_poids_faux exemple_now exemple_rng exemple_clk 1
       = Inl (ValueError ''probabilities do not sum to 1'')
   \<and> generer_montant config_min_sup_max ''transfer'' (Finite (50001 / 2))
       = Inr (of_py_int 100000)"
proof -
  have m: "map_of (montant_ranges config_min_sup_max) ''transfer'' = Some (100000, 1000)"
    by (simp add: config_min_sup_max_def)
  have n: "(0::int) < 1" "(1000::int) < 100000" by simp_all
  from invalid_configuration_behaviour
    [of 1 config_poids_faux sort_key exemple_now exemple_rng exemple_clk
        config_min_sup_max "''transfer''" 100000 1000 "Finite (50001 / 2)"]
    poids_faux_facts exemple_now_in_range m n
  show ?thesis by blast
qed

end
